theory Spec2Isabelle
  imports Complex_Main "HOL-Library.Multiset" "HOL-Library.Word"
begin

section \<open>Data model\<close>

text \<open>
  The program is one C++ file, \<^verbatim>\<open>main.cpp\<close>. A poster image is an OpenCV matrix
  \<^verbatim>\<open>cv::Mat\<close>. Every matrix of the program comes from
  \<^verbatim>\<open>cv::imdecode(data, cv::IMREAD_COLOR)\<close>, so it has three 8-bit channels stored in
  the order blue, green, red, or it is the empty matrix \<^verbatim>\<open>cv::Mat()\<close>.
\<close>

type_synonym uchar = "8 word"

type_synonym pixel = "uchar \<times> uchar \<times> uchar"

record Mat =
  rows :: nat
  cols :: nat
  data :: "pixel list"

text \<open>\<^verbatim>\<open>cv::Mat()\<close>: no rows, no columns, no data.\<close>

definition Mat_default :: Mat where
  "Mat_default = \<lparr>rows = 0, cols = 0, data = []\<rparr>"

text \<open>\<^verbatim>\<open>Mat::empty()\<close>: no data, or no element.\<close>

definition Mat_empty :: "Mat \<Rightarrow> bool" where
  "Mat_empty m = (data m = [] \<or> rows m * cols m = 0)"

text \<open>\<^verbatim>\<open>struct Movie\<close>. The field \<^verbatim>\<open>id\<close> is called \<open>movie_id\<close> here.\<close>

record Movie =
  movie_id :: int
  title :: string
  genre :: string
  poster_url :: string
  cover :: Mat

section \<open>The libraries the program calls\<close>

text \<open>
  The program reaches the network through libcurl, the database through libpqxx and
  images through OpenCV. None of them is code of the repository. The record \<open>env\<close>
  holds what they answer: every function of the program that calls one of them takes
  the \<open>env\<close> as its first argument.

  \<^item> \<open>curl_easy_init\<close>: whether libcurl hands out a handle.
  \<^item> \<open>curl_easy_perform\<close>: the result code of the transfer of a URL, and the chunks of
    the body that libcurl passed to the write callback before it returned.
  \<^item> \<open>imdecode\<close>: \<^verbatim>\<open>cv::imdecode(data, cv::IMREAD_COLOR)\<close>; by its documentation it
    returns the empty matrix when the buffer is too short or holds invalid data.
  \<^item> \<open>cv_resize\<close>: \<^verbatim>\<open>cv::resize(src, dst, cv::Size(width, height))\<close>, as the function
    from \<open>src\<close>, \<open>width\<close> and \<open>height\<close> to \<open>dst\<close>.
  \<^item> \<open>pq_connect\<close>: the constructor of \<^verbatim>\<open>pqxx::connection\<close>; it throws (\<open>Inl\<close>, with the
    text of \<^verbatim>\<open>what()\<close>) or gives a connection.
  \<^item> \<open>pq_exec\<close>: the transaction \<^verbatim>\<open>pqxx::work txn(conn)\<close> on a connection and
    \<^verbatim>\<open>txn.exec(query)\<close> in it; it throws or gives the rows.

  Only the two calls into libpqxx throw here. libcurl is a C library and reports a
  failure by its result code; \<^verbatim>\<open>cv::imdecode\<close> is taken to report one by the empty
  matrix, as its documentation says.
\<close>

datatype CURLcode = CURLE_OK | CURLE_error nat

text \<open>
  A row of the result of the query. The columns hold values of the types the program
  reads them at (\<^verbatim>\<open>as<int>()\<close>, \<^verbatim>\<open>as<std::string>()\<close>).
\<close>

record row =
  row_id :: int
  row_title :: string
  row_genre :: string
  row_poster_link :: string

record env =
  curl_easy_init :: bool
  curl_easy_perform :: "string \<Rightarrow> CURLcode \<times> uchar list list"
  imdecode :: "uchar list \<Rightarrow> Mat"
  cv_resize :: "Mat \<Rightarrow> nat \<Rightarrow> nat \<Rightarrow> Mat"
  pq_connect :: "string \<Rightarrow> string + nat"
  pq_exec :: "nat \<Rightarrow> string \<Rightarrow> string + row list"


section \<open>Fetching and normalising an image\<close>

text \<open>
  \<^verbatim>\<open>WriteCallback(contents, size, nmemb, userp)\<close> appends \<open>size * nmemb\<close> bytes to the
  string behind \<open>userp\<close> and returns that number. The model returns the new string too.
\<close>

definition WriteCallback :: "uchar list \<Rightarrow> nat \<Rightarrow> nat \<Rightarrow> uchar list \<Rightarrow> uchar list \<times> nat" where
  "WriteCallback contents sz nmemb userp = (userp @ take (sz * nmemb) contents, sz * nmemb)"

text \<open>
  The buffer after the transfer: libcurl calls the write callback once for each chunk,
  with \<open>size = 1\<close> and \<open>nmemb\<close> the length of the chunk.
\<close>

definition received :: "uchar list list \<Rightarrow> uchar list" where
  "received chunks = fold (\<lambda>c buffer. fst (WriteCallback c 1 (length c) buffer)) chunks []"

definition loadImageFromURL :: "env \<Rightarrow> string \<Rightarrow> Mat" where
  "loadImageFromURL e url =
     (if curl_easy_init e then
        (let (res, chunks) = curl_easy_perform e url;
             buffer = received chunks
         in if res = CURLE_OK then imdecode e buffer else Mat_default)
      else Mat_default)"

definition preprocessImage :: "env \<Rightarrow> Mat \<Rightarrow> Mat" where
  "preprocessImage e img =
     (if Mat_empty img then Mat_default else cv_resize e img 67 98)"

section \<open>Mean colour and cosine distance\<close>

text \<open>
  \<^verbatim>\<open>cv::mean\<close> gives a \<^verbatim>\<open>cv::Scalar\<close>, four numbers: the mean of each channel over all
  elements, and zero for a channel the matrix does not have. For a matrix without
  elements it gives four zeros.

  Numbers of the types \<^verbatim>\<open>float\<close> and \<^verbatim>\<open>double\<close> are real numbers here: sums, products,
  quotients and square roots are exact. What the model keeps of floating point is the
  outcome of a division by zero (\<open>NaN\<close> or an infinity) and the comparisons with \<open>NaN\<close>.
  The theorems about the ranking below speak of the distances only through their
  order and through which of them are \<open>NaN\<close>.
\<close>

definition channel_mean :: "(pixel \<Rightarrow> uchar) \<Rightarrow> pixel list \<Rightarrow> real" where
  "channel_mean ch ps = (\<Sum>p\<leftarrow>ps. real (unat (ch p))) / real (length ps)"

definition blue :: "pixel \<Rightarrow> uchar" where
  "blue p = fst p"

definition green :: "pixel \<Rightarrow> uchar" where
  "green p = fst (snd p)"

definition red :: "pixel \<Rightarrow> uchar" where
  "red p = snd (snd p)"

definition cv_mean :: "Mat \<Rightarrow> real list" where
  "cv_mean img =
     (if Mat_empty img then [0, 0, 0, 0]
      else [channel_mean blue (data img), channel_mean green (data img),
            channel_mean red (data img), 0])"

type_synonym Vec3f = "real \<times> real \<times> real"

definition calculateMeanRGB :: "Mat \<Rightarrow> Vec3f" where
  "calculateMeanRGB img =
     (let meanScalar = cv_mean img in (meanScalar ! 2, meanScalar ! 1, meanScalar ! 0))"

datatype float = NaN | NInf | Finite real | PInf

text \<open>The quotient of two finite numbers; the divisor of the program is never negative.\<close>

definition fdiv :: "real \<Rightarrow> real \<Rightarrow> float" where
  "fdiv x y =
     (if y = 0 then (if x = 0 then NaN else if 0 < x then PInf else NInf)
      else Finite (x / y))"

text \<open>A finite number minus a \<open>float\<close>.\<close>

fun fsub :: "real \<Rightarrow> float \<Rightarrow> float" where
  "fsub x NaN = NaN"
| "fsub x NInf = PInf"
| "fsub x (Finite y) = Finite (x - y)"
| "fsub x PInf = NInf"

text \<open>The comparison \<^verbatim>\<open><\<close> of two \<open>float\<close>s: false as soon as one of them is \<open>NaN\<close>.\<close>

fun fless :: "float \<Rightarrow> float \<Rightarrow> bool" where
  "fless NaN _ = False"
| "fless _ NaN = False"
| "fless NInf NInf = False"
| "fless NInf _ = True"
| "fless (Finite x) (Finite y) = (x < y)"
| "fless (Finite x) PInf = True"
| "fless (Finite x) NInf = False"
| "fless PInf _ = False"



definition dot :: "Vec3f \<Rightarrow> Vec3f \<Rightarrow> real" where
  "dot a b = (case a of (a0, a1, a2) \<Rightarrow> case b of (b0, b1, b2) \<Rightarrow> a0 * b0 + a1 * b1 + a2 * b2)"

definition cv_norm :: "Vec3f \<Rightarrow> real" where
  "cv_norm a = (case a of (a0, a1, a2) \<Rightarrow> sqrt (a0 * a0 + a1 * a1 + a2 * a2))"

definition cosineDistance :: "Vec3f \<Rightarrow> Vec3f \<Rightarrow> float" where
  "cosineDistance a b = fsub 1 (fdiv (dot a b) (cv_norm a * cv_norm b))"

section \<open>Loading the catalogue\<close>

text \<open>
  The loop over the rows: it builds a \<open>Movie\<close> from each row, starts a task
  \<^verbatim>\<open>std::async(std::launch::async, loadImageFromURL, movie.poster_url)\<close> for it and
  appends the movie, whose cover is still \<^verbatim>\<open>cv::Mat()\<close>. The second component of the
  state lists the arguments of the tasks started, in the order of \<^verbatim>\<open>futures\<close>.
\<close>

fun read_rows :: "row list \<Rightarrow> Movie list \<times> string list \<Rightarrow> Movie list \<times> string list" where
  "read_rows [] st = st"
| "read_rows (r # rs) (movies, futures) =
     (let movie = \<lparr>movie_id = row_id r, title = row_title r, genre = row_genre r,
                   poster_url = row_poster_link r, cover = Mat_default\<rparr>
      in read_rows rs (movies @ [movie], futures @ [poster_url movie]))"

text \<open>
  The tasks run concurrently. A schedule lists the indices of tasks in the order in
  which they finish; \<open>finished\<close> maps the index of a task that has finished to its
  result. \<^verbatim>\<open>futures[i].get()\<close> blocks until task \<open>i\<close> has finished: the tasks ahead of it
  in the schedule finish first, and a task the schedule does not list finishes when it
  is waited for.
\<close>

type_synonym tasks = "nat list \<times> (nat \<rightharpoonup> Mat)"

fun future_get :: "(nat \<Rightarrow> Mat) \<Rightarrow> nat \<Rightarrow> tasks \<Rightarrow> Mat \<times> tasks" where
  "future_get task i ([], finished) =
     (case finished i of
        Some m \<Rightarrow> (m, ([], finished))
      | None \<Rightarrow> (task i, ([], finished(i \<mapsto> task i))))"
| "future_get task i (k # schedule, finished) =
     (case finished i of
        Some m \<Rightarrow> (m, (k # schedule, finished))
      | None \<Rightarrow> future_get task i (schedule, finished(k \<mapsto> task k)))"

text \<open>
  \<^verbatim>\<open>for (size_t i = 0; i < movies.size(); ++i)
    movies[i].cover = preprocessImage(futures[i].get());\<close>
\<close>

function join_loop :: "env \<Rightarrow> (nat \<Rightarrow> Mat) \<Rightarrow> nat \<Rightarrow> Movie list \<Rightarrow> tasks \<Rightarrow> Movie list" where
  "join_loop e task i movies ts =
     (if i < length movies then
        (let (m, ts') = future_get task i ts
         in join_loop e task (i + 1) (movies[i := (movies ! i)\<lparr>cover := preprocessImage e m\<rparr>]) ts')
      else movies)"
  by pat_completeness auto
termination
  by (relation "measure (\<lambda>(e, task, i, movies, ts). length movies - i)") auto

declare join_loop.simps [simp del]

text \<open>The bytes of the prefix the handler writes before \<^verbatim>\<open>e.what()\<close>, in UTF-8.\<close>

definition exception_prefix :: string where
  "exception_prefix = map char_of
     [0xD0, 0x98, 0xD1, 0x81, 0xD0, 0xBA, 0xD0, 0xBB, 0xD1, 0x8E, 0xD1, 0x87,
      0xD0, 0xB5, 0xD0, 0xBD, 0xD0, 0xB8, 0xD0, 0xB5, 0x3A, 0x20 :: nat]"

definition catalog_query :: string where
  "catalog_query = ''SELECT id, title, genre, poster_link FROM movies;''"

text \<open>
  \<^verbatim>\<open>loadMoviesFromDatabase\<close> returns the movies and what it wrote to \<^verbatim>\<open>std::cerr\<close>. The
  schedule of the tasks is an argument: the order in which the fetches finish is not
  the program's choice.
\<close>

definition loadMoviesFromDatabase :: "env \<Rightarrow> nat list \<Rightarrow> string \<Rightarrow> Movie list \<times> string" where
  "loadMoviesFromDatabase e schedule connectionString =
     (case pq_connect e connectionString of
        Inl what \<Rightarrow> ([], exception_prefix @ what @ [CHR 0x0A])
      | Inr conn \<Rightarrow>
          (case pq_exec e conn catalog_query of
             Inl what \<Rightarrow> ([], exception_prefix @ what @ [CHR 0x0A])
           | Inr result \<Rightarrow>
               (let (movies, futures) = read_rows result ([], []);
                    task = (\<lambda>k. loadImageFromURL e (futures ! k))
                in (join_loop e task 0 movies (schedule, Map.empty), []))))"

section \<open>Recommending\<close>

text \<open>
  \<^verbatim>\<open>std::sort(first, last, comp)\<close> is the standard library's. The C++ standard asks that
  \<open>comp\<close> be a strict weak ordering of the elements, and then promises that the range
  holds the same elements, no element less than one before it. It does not promise
  that equivalent elements keep their order, and promises nothing for another \<open>comp\<close>.
  The function that sorts is an argument of \<open>recommendMovies\<close>.
\<close>

type_synonym ranked = "float \<times> Movie"

type_synonym sorter = "(ranked \<Rightarrow> ranked \<Rightarrow> bool) \<Rightarrow> ranked list \<Rightarrow> ranked list"



text \<open>\<^verbatim>\<open>static_cast<int>(n)\<close> of a \<^verbatim>\<open>size_t\<close>: the low 32 bits, read as a signed number.\<close>

definition static_cast_int :: "nat \<Rightarrow> int" where
  "static_cast_int n = (int n + 2 ^ 31) mod 2 ^ 32 - 2 ^ 31"

text \<open>
  \<^verbatim>\<open>for (int i = 0; i < n; ++i) recommendations.push_back(distances[i].second);\<close>
  with \<open>n\<close> the bound \<^verbatim>\<open>std::min(topN, static_cast<int>(distances.size()))\<close>.
\<close>

function push_back_loop :: "int \<Rightarrow> int \<Rightarrow> ranked list \<Rightarrow> Movie list \<Rightarrow> Movie list" where
  "push_back_loop i n distances recommendations =
     (if i < n then
        push_back_loop (i + 1) n distances (recommendations @ [snd (distances ! nat i)])
      else recommendations)"
  by pat_completeness auto
termination
  by (relation "measure (\<lambda>(i, n, distances, recommendations). nat (n - i))") auto

declare push_back_loop.simps [simp del]

text \<open>The comparison the program passes to \<^verbatim>\<open>std::sort\<close>.\<close>

definition by_distance :: "ranked \<Rightarrow> ranked \<Rightarrow> bool" where
  "by_distance a b = fless (fst a) (fst b)"

text \<open>The distance the program computes for a catalogue entry.\<close>

definition distance_to :: "Movie \<Rightarrow> Movie \<Rightarrow> float" where
  "distance_to inputMovie movie =
     cosineDistance (calculateMeanRGB (cover inputMovie)) (calculateMeanRGB (cover movie))"

definition recommendMovies :: "sorter \<Rightarrow> Movie \<Rightarrow> Movie list \<Rightarrow> int \<Rightarrow> Movie list" where
  "recommendMovies srt inputMovie movies topN =
     (let inputMeanRGB = calculateMeanRGB (cover inputMovie);
          distances = map (\<lambda>movie. (cosineDistance inputMeanRGB (calculateMeanRGB (cover movie)), movie)) movies;
          distances = srt by_distance distances
      in push_back_loop 0 (min topN (static_cast_int (length distances))) distances [])"

section \<open>Sorting routines and sample data\<close>

text \<open>
  The insertion sort of libstdc++ (\<^verbatim>\<open>std::__insertion_sort\<close>), which its \<^verbatim>\<open>std::sort\<close>
  applies to a range of at most 16 elements. \<open>unguarded_linear_insert\<close> walks from the
  end of the sorted range towards its start, so it takes that range reversed.
\<close>

fun unguarded_linear_insert :: "('a \<Rightarrow> 'a \<Rightarrow> bool) \<Rightarrow> 'a \<Rightarrow> 'a list \<Rightarrow> 'a list" where
  "unguarded_linear_insert cmp val [] = [val]"
| "unguarded_linear_insert cmp val (y # before) =
     (if cmp val y then y # unguarded_linear_insert cmp val before else val # y # before)"

definition insertion_step :: "('a \<Rightarrow> 'a \<Rightarrow> bool) \<Rightarrow> 'a list \<Rightarrow> 'a \<Rightarrow> 'a list" where
  "insertion_step cmp sorted_range val =
     (case sorted_range of
        [] \<Rightarrow> [val]
      | first # _ \<Rightarrow>
          if cmp val first then val # sorted_range
          else rev (unguarded_linear_insert cmp val (rev sorted_range)))"

definition insertion_sort :: "('a \<Rightarrow> 'a \<Rightarrow> bool) \<Rightarrow> 'a list \<Rightarrow> 'a list" where
  "insertion_sort cmp xs = foldl (insertion_step cmp) [] xs"


text \<open>A cover of the canonical size in one colour.\<close>

definition solid_cover :: "uchar \<Rightarrow> uchar \<Rightarrow> uchar \<Rightarrow> Mat" where
  "solid_cover r g b = \<lparr>rows = 98, cols = 67, data = replicate (67 * 98) (b, g, r)\<rparr>"

definition query_movie :: Movie where
  "query_movie = \<lparr>movie_id = 0, title = ''query'', genre = ''N/A'',
     poster_url = ''http://posters.example/q.png'', cover = solid_cover 255 0 0\<rparr>"

definition red_movie :: Movie where
  "red_movie = \<lparr>movie_id = 1, title = ''A'', genre = ''drama'',
     poster_url = ''http://posters.example/a.png'', cover = solid_cover 255 0 0\<rparr>"

definition blue_movie :: Movie where
  "blue_movie = \<lparr>movie_id = 2, title = ''B'', genre = ''comedy'',
     poster_url = ''http://posters.example/b.png'', cover = solid_cover 0 0 255\<rparr>"

text \<open>Two entries whose cover failed to load.\<close>

definition failed_movie :: Movie where
  "failed_movie = \<lparr>movie_id = 3, title = ''C'', genre = ''horror'',
     poster_url = ''http://posters.example/c.png'', cover = Mat_default\<rparr>"



text \<open>
  Sample answers of the libraries. The server has an image at \<open>a.png\<close> and at \<open>b.png\<close>,
  answers \<open>c.png\<close> with a page that is no image, and no other host resolves. The
  database accepts one connection string and holds three rows.
\<close>

definition fill_resize :: "Mat \<Rightarrow> nat \<Rightarrow> nat \<Rightarrow> Mat" where
  "fill_resize src w h = \<lparr>rows = h, cols = w, data = replicate (w * h) (hd (data src))\<rparr>"

definition red_dot :: Mat where
  "red_dot = \<lparr>rows = 1, cols = 1, data = [(0, 0, 255)]\<rparr>"

definition blue_dot :: Mat where
  "blue_dot = \<lparr>rows = 1, cols = 1, data = [(255, 0, 0)]\<rparr>"

definition sample_rows :: "row list" where
  "sample_rows =
     [\<lparr>row_id = 1, row_title = ''A'', row_genre = ''drama'',
        row_poster_link = ''http://posters.example/a.png''\<rparr>,
      \<lparr>row_id = 3, row_title = ''C'', row_genre = ''horror'',
        row_poster_link = ''http://posters.example/c.png''\<rparr>,
      \<lparr>row_id = 2, row_title = ''B'', row_genre = ''comedy'',
        row_poster_link = ''http://posters.example/b.png''\<rparr>]"

definition sample_env :: env where
  "sample_env =
     \<lparr>curl_easy_init = True,
      curl_easy_perform = (\<lambda>url.
        if url = ''http://posters.example/a.png'' then (CURLE_OK, [[0x89, 0x50], [0x4E, 0x47]])
        else if url = ''http://posters.example/b.png'' then (CURLE_OK, [[0x42, 0x4D]])
        else if url = ''http://posters.example/c.png'' then (CURLE_OK, [[0x3C], [0x68, 0x31, 0x3E]])
        else (CURLE_error 6, [])),
      imdecode = (\<lambda>buffer.
        if buffer = [0x89, 0x50, 0x4E, 0x47] then red_dot
        else if buffer = [0x42, 0x4D] then blue_dot
        else Mat_default),
      cv_resize = fill_resize,
      pq_connect = (\<lambda>connectionString.
        if connectionString = ''dbname=image_rec user=postgres password=123123'' then Inr 0
        else Inl ''could not connect to server''),
      pq_exec = (\<lambda>conn query. if query = catalog_query then Inr sample_rows else Inl ''syntax error'')\<rparr>"

text \<open>The same, with a database that has no table \<open>movies\<close>.\<close>

definition no_table_env :: env where
  "no_table_env = sample_env\<lparr>pq_exec := (\<lambda>conn query. Inl ''relation movies does not exist'')\<rparr>"



section \<open>Lemmas\<close>



lemma push_back_loop_take:
  "0 \<le> i \<Longrightarrow> n \<le> int (length ds) \<Longrightarrow>
   push_back_loop i n ds rs = rs @ map snd (take (nat n - nat i) (drop (nat i) ds))"
proof (induction i n ds rs rule: push_back_loop.induct)
  case (1 i n ds rs)
  show ?case
  proof (cases "i < n")
    case True
    with "1.prems" have lt: "nat i < length ds" by linarith
    have step: "take (nat n - nat i) (drop (nat i) ds)
        = ds ! nat i # take (nat n - nat (i + 1)) (drop (nat (i + 1)) ds)"
    proof -
      have "nat n - nat i = Suc (nat n - nat (i + 1))" using True "1.prems" by linarith
      moreover have "drop (nat i) ds = ds ! nat i # drop (nat (i + 1)) ds"
        using lt "1.prems" by (simp add: Cons_nth_drop_Suc nat_add_distrib)
      ultimately show ?thesis by simp
    qed
    have "push_back_loop i n ds rs = push_back_loop (i + 1) n ds (rs @ [snd (ds ! nat i)])"
      using True by (simp add: push_back_loop.simps [of i])
    also have "\<dots> = (rs @ [snd (ds ! nat i)]) @ map snd (take (nat n - nat (i + 1)) (drop (nat (i + 1)) ds))"
      using "1.IH" [OF True] "1.prems" by simp
    finally show ?thesis using step by simp
  next
    case False
    then have "nat n - nat i = 0" by linarith
    with False show ?thesis by (simp add: push_back_loop.simps [of i])
  qed
qed

lemma push_back_loop_none: "n \<le> i \<Longrightarrow> push_back_loop i n ds rs = rs"
  by (simp add: push_back_loop.simps [of i])























lemma channel_mean_replicate:
  "0 < n \<Longrightarrow> channel_mean ch (replicate n p) = real (unat (ch p))"
  by (simp add: channel_mean_def map_replicate_const sum_list_replicate)

lemma calculateMeanRGB_solid:
  "calculateMeanRGB (solid_cover r g b) = (real (unat r), real (unat g), real (unat b))"
proof -
  have "\<not> Mat_empty (solid_cover r g b)"
    by (simp add: Mat_empty_def solid_cover_def)
  moreover have "data (solid_cover r g b) = replicate (67 * 98) (b, g, r)"
    by (simp add: solid_cover_def)
  ultimately show ?thesis
    by (simp add: calculateMeanRGB_def cv_mean_def Let_def channel_mean_replicate
        red_def green_def blue_def)
qed

lemma calculateMeanRGB_default: "calculateMeanRGB Mat_default = (0, 0, 0)"
  by (simp add: calculateMeanRGB_def cv_mean_def Mat_empty_def Mat_default_def)

lemma empty_cover_distance: "Mat_empty (cover movie) \<Longrightarrow> distance_to inputMovie movie = NaN"
proof -
  assume "Mat_empty (cover movie)"
  then have "calculateMeanRGB (cover movie) = (0, 0, 0)"
    by (simp add: calculateMeanRGB_def cv_mean_def)
  then show ?thesis
    by (cases "calculateMeanRGB (cover inputMovie)")
      (simp add: distance_to_def cosineDistance_def dot_def cv_norm_def fdiv_def)
qed

lemma by_distance_NaN: "fst a = NaN \<or> fst b = NaN \<Longrightarrow> \<not> by_distance a b"
  by (cases "fst a"; cases "fst b") (auto simp: by_distance_def)

lemma distance_query_red: "distance_to query_movie red_movie = Finite 0"
  by (simp add: distance_to_def query_movie_def red_movie_def calculateMeanRGB_solid
      cosineDistance_def dot_def cv_norm_def fdiv_def)



lemma distance_query_failed: "distance_to query_movie failed_movie = NaN"
  by (simp add: distance_to_def query_movie_def failed_movie_def calculateMeanRGB_solid
      calculateMeanRGB_default cosineDistance_def dot_def cv_norm_def fdiv_def)


lemma recommendMovies_distance_to:
  "recommendMovies srt q movies topN =
     (let distances = srt by_distance (map (\<lambda>movie. (distance_to q movie, movie)) movies)
      in push_back_loop 0 (min topN (static_cast_int (length distances))) distances [])"
  by (simp add: recommendMovies_def distance_to_def Let_def)

















section \<open>The claims\<close>

subsection \<open>C1: entries whose cover failed to load\<close>

text \<open>
  C1 says that a catalogue entry whose cover failed to load (an empty cover, so a mean
  colour of norm zero) is left out of the ranking or ranked last, and never ranks above
  an entry with a valid match. The program has no such rule: the distance of every
  entry with an empty cover is \<open>NaN\<close> (\<open>empty_cover_distance\<close>), and the comparison the
  program sorts by is false whenever one side is \<open>NaN\<close> (\<open>by_distance_NaN\<close>).

  For the query with a red cover and the catalogue of an entry without cover followed
  by an entry with the same red cover, the distance of the first is \<open>NaN\<close>, the distance
  of the second is \<open>0\<close>, the insertion sort moves nothing, and the one recommendation
  asked for is the entry without cover.
\<close>

theorem failed_cover_ranks_first:
  "distance_to query_movie failed_movie = NaN \<and>
   distance_to query_movie red_movie = Finite 0 \<and>
   recommendMovies insertion_sort query_movie [failed_movie, red_movie] 1 = [failed_movie]"
  by (simp add: recommendMovies_distance_to distance_query_red distance_query_failed
      insertion_sort_def insertion_step_def by_distance_def static_cast_int_def
      push_back_loop_take)

subsection \<open>C2: the order of the ranking\<close>




subsection \<open>C3: failure of the query\<close>

text \<open>
  C3: when the connection cannot be opened, or the query fails on the connection, the
  catalogue returned is empty, and the text of the exception is written to
  \<^verbatim>\<open>std::cerr\<close> after the prefix of the handler. \<open>loadMoviesFromDatabase\<close> returns in both
  cases: the handler catches the exception.
\<close>

theorem load_query_failure:
  "(pq_connect e connectionString = Inl what \<longrightarrow>
      loadMoviesFromDatabase e schedule connectionString
        = ([], exception_prefix @ what @ [CHR 0x0A])) \<and>
   (pq_connect e connectionString = Inr conn \<and> pq_exec e conn catalog_query = Inl what \<longrightarrow>
      loadMoviesFromDatabase e schedule connectionString
        = ([], exception_prefix @ what @ [CHR 0x0A]))"
  by (simp add: loadMoviesFromDatabase_def)

text \<open>
  The theorem at a connection string the sample database refuses, and at a database
  without the table.
\<close>

theorem load_query_failure_witness:
  "pq_connect sample_env ''host=nowhere'' = Inl ''could not connect to server'' \<and>
   loadMoviesFromDatabase sample_env [1, 0] ''host=nowhere''
     = ([], exception_prefix @ ''could not connect to server'' @ [CHR 0x0A]) \<and>
   pq_connect no_table_env ''dbname=image_rec user=postgres password=123123'' = Inr 0 \<and>
   pq_exec no_table_env 0 catalog_query = Inl ''relation movies does not exist'' \<and>
   loadMoviesFromDatabase no_table_env [1, 0] ''dbname=image_rec user=postgres password=123123''
     = ([], exception_prefix @ ''relation movies does not exist'' @ [CHR 0x0A])"
proof -
  have c: "pq_connect sample_env ''host=nowhere'' = Inl ''could not connect to server''"
    by (simp add: sample_env_def)
  have d: "pq_connect no_table_env ''dbname=image_rec user=postgres password=123123'' = Inr 0"
    by (simp add: no_table_env_def sample_env_def)
  have x: "pq_exec no_table_env 0 catalog_query = Inl ''relation movies does not exist''"
    by (simp add: no_table_env_def sample_env_def)
  from load_query_failure [of sample_env "''host=nowhere''" "''could not connect to server''" "[1, 0]"]
    load_query_failure [of no_table_env "''dbname=image_rec user=postgres password=123123''"
      "''relation movies does not exist''" "[1, 0]" 0]
    c d x show ?thesis by simp
qed

subsection \<open>C4: how many results, and in which order\<close>




subsection \<open>C5: the canonical resolution\<close>



subsection \<open>C6: covers are attached by position\<close>



subsection \<open>C7: the mean colour\<close>


subsection \<open>C8: the distance of a vector to itself, and symmetry\<close>




subsection \<open>C9: a fetch that fails\<close>



subsection \<open>C10: a bound that is not positive\<close>

text \<open>
  C10: for every sorting routine, query and catalogue, \<open>recommendMovies\<close> returns the
  empty list when \<open>topN\<close> is zero or negative.
\<close>

theorem recommend_nonpositive_topN:
  "topN \<le> 0 \<Longrightarrow> recommendMovies srt inputMovie movies topN = []"
  by (simp add: recommendMovies_def Let_def push_back_loop_none)

text \<open>The theorem at \<open>topN = -1\<close> and a catalogue of two entries.\<close>

theorem recommend_nonpositive_topN_witness:
  "(- 1 :: int) \<le> 0 \<and> recommendMovies insertion_sort query_movie [red_movie, blue_movie] (- 1) = []"
  using recommend_nonpositive_topN [of "- 1" insertion_sort query_movie "[red_movie, blue_movie]"]
  by simp

end
